theory Spec2Isabelle
  imports Complex_Main "HOL-Library.Sublist" "HOL-Library.Log_Nat"
begin

section \<open>The islands worker (frontend/src/core/islands/worker/worker.tsx)\<close>

subsection \<open>Strings\<close>

text \<open>
  Source strings are modelled as \<^typ>\<open>string\<close>. The two markers the worker searches for
  and the import lines it injects are ASCII, so searching over bytes and over UTF-16 code
  units agree on them.

  \<open>string_includes s t\<close> is \<^verbatim>\<open>s.includes(t)\<close>: \<open>t\<close> occurs in \<open>s\<close> as a contiguous
  substring; the empty string occurs in every string.
\<close>

fun string_includes :: "string \<Rightarrow> string \<Rightarrow> bool" where
  "string_includes [] t = (t = [])"
| "string_includes (c # s) t = (prefix t (c # s) \<or> string_includes s t)"

subsection \<open>Values, errors and promises\<close>

text \<open>
  An error value thrown in the worker: a \<^verbatim>\<open>TypeError\<close> of the runtime (a property read
  on \<^verbatim>\<open>undefined\<close>), the error of a failed \<^verbatim>\<open>invariant(...)\<close>, the
  \<^verbatim>\<open>SyntaxError\<close> of \<^verbatim>\<open>JSON.parse\<close>, or an error thrown by a collaborator (the
  controller, the interpreter, a bridge function).
\<close>

datatype error =
    TypeError string
  | InvariantError string
  | SyntaxError string
  | Thrown string

text \<open>
  How an awaited computation ends: it returns, it throws, or it never settles.
\<close>

datatype 'a outcome = Returns 'a | Throws error | Hangs

datatype 'a promise = Pending | Fulfilled 'a | Rejected error

fun await :: "'a promise \<Rightarrow> 'a outcome" where
  "await Pending = Hangs"
| "await (Fulfilled v) = Returns v"
| "await (Rejected e) = Throws e"

text \<open>\<^verbatim>\<open>Deferred.resolve\<close>: a promise settles at most once.\<close>

fun resolve :: "'a promise \<Rightarrow> 'a \<Rightarrow> 'a promise" where
  "resolve Pending v = Fulfilled v"
| "resolve (Fulfilled u) v = Fulfilled u"
| "resolve (Rejected e) v = Rejected e"

text \<open>The messages of \<^verbatim>\<open>WorkerSchema\<close>, sent to the main thread with \<^verbatim>\<open>rpc.send\<close>.\<close>

datatype message =
    Ready
  | KernelMessage string
  | Initialized
  | InitializedError string

text \<open>
  The \<^verbatim>\<open>payload\<close> of a \<^verbatim>\<open>bridge\<close> request (\<^verbatim>\<open>{} | undefined | null\<close>) and the response
  of a bridge function: a string, or any other value.
\<close>

datatype 'v payload = PNull | PUndefined | PString string | PValue 'v

datatype 'v response = RString string | RValue 'v

subsection \<open>Collaborators and state\<close>

text \<open>
  The collaborators the worker calls and does not implement, as parameters:
  \<^verbatim>\<open>getPyodideVersion\<close>, the \<^verbatim>\<open>ReadonlyWasmController\<close> (its constructor, taken not to
  throw, \<^verbatim>\<open>bootstrap\<close>, \<^verbatim>\<open>mountFilesystem\<close>, \<^verbatim>\<open>startSession\<close>), the interpreter's
  \<^verbatim>\<open>loadPackagesFromImports\<close>, the functions of the bridge (called by name with an
  optional argument), \<^verbatim>\<open>JSON.stringify\<close>, \<^verbatim>\<open>JSON.parse\<close> and \<^verbatim>\<open>prettyError\<close>.
  \<^verbatim>\<open>JSON.stringify\<close> gives a text or throws, as it does on every value the worker's
  transport can deliver; \<^verbatim>\<open>rpc.send\<close> and \<^verbatim>\<open>prettyError\<close> are taken not to throw.
  Type variables: \<open>'c\<close> controller, \<open>'p\<close> interpreter, \<open>'n\<close> mounted notebook,
  \<open>'b\<close> bridge, \<open>'v\<close> values.
\<close>

record ('c, 'p, 'n, 'b, 'v) env =
  getPyodideVersion :: "string \<Rightarrow> string"
  newController :: "'c"
  controller_bootstrap :: "'c \<Rightarrow> string \<Rightarrow> string \<Rightarrow> 'p outcome"
  controller_mountFilesystem :: "'c \<Rightarrow> string \<Rightarrow> string \<Rightarrow> 'n outcome"
  controller_startSession :: "'c \<Rightarrow> 'n \<Rightarrow> 'b outcome"
  pyodide_loadPackagesFromImports :: "'p \<Rightarrow> string \<Rightarrow> unit outcome"
  bridge_call :: "'b \<Rightarrow> string \<Rightarrow> string option \<Rightarrow> 'v response outcome"
  JSON_stringify :: "'v \<Rightarrow> error + string"
  JSON_parse :: "string \<Rightarrow> error + 'v"
  prettyError :: "error \<Rightarrow> string"

text \<open>
  The worker's state: \<^verbatim>\<open>self.name\<close>, \<^verbatim>\<open>self.controller\<close>, \<^verbatim>\<open>self.pyodide\<close>, the two
  promises \<^verbatim>\<open>pyodideReadyPromise\<close> and \<^verbatim>\<open>bridgeReady\<close>, and the messages sent so far,
  oldest first.
\<close>

record ('c, 'p, 'b) worker =
  self_name :: string
  controller :: "'c option"
  pyodide :: "'p option"
  pyodideReadyPromise :: "unit promise"
  bridgeReady :: "'b promise"
  sent :: "message list"

definition send :: "message \<Rightarrow> ('c, 'p, 'b) worker \<Rightarrow> ('c, 'p, 'b) worker" where
  "send m st = st\<lparr>sent := sent st @ [m]\<rparr>"

subsection \<open>Bootstrap\<close>

text \<open>
  \<^verbatim>\<open>loadPyodideAndPackages\<close>, run to the point where its promise settles (logging is
  left out). The \<^verbatim>\<open>catch\<close> block sends \<^verbatim>\<open>initializedError\<close> and falls through, so the
  function returns and the promise is fulfilled on that path too; the promise stays
  pending only while the bootstrap itself never settles.
\<close>

definition loadPyodideAndPackages ::
  "('c, 'p, 'n, 'b, 'v) env \<Rightarrow> ('c, 'p, 'b) worker \<Rightarrow> ('c, 'p, 'b) worker" where
  "loadPyodideAndPackages env st =
     (let marimoVersion = self_name st;
          pyodideVersion = getPyodideVersion env marimoVersion;
          c = newController env;
          st1 = st\<lparr>controller := Some c\<rparr>
      in case controller_bootstrap env c marimoVersion pyodideVersion of
           Returns p \<Rightarrow> st1\<lparr>pyodide := Some p, pyodideReadyPromise := Fulfilled ()\<rparr>
         | Throws e \<Rightarrow>
             (send (InitializedError (prettyError env e)) st1)
               \<lparr>pyodideReadyPromise := Fulfilled ()\<rparr>
         | Hangs \<Rightarrow> st1)"

text \<open>
  The module's top level: the bootstrap is started, the promises are created, and
  \<^verbatim>\<open>ready\<close> is sent before any continuation of the bootstrap runs.
\<close>

definition worker_start ::
  "('c, 'p, 'n, 'b, 'v) env \<Rightarrow> string \<Rightarrow> ('c, 'p, 'b) worker" where
  "worker_start env nm =
     loadPyodideAndPackages env
       \<lparr>self_name = nm, controller = None, pyodide = None,
        pyodideReadyPromise = Pending, bridgeReady = Pending, sent = [Ready]\<rparr>"

subsection \<open>Request handlers\<close>

text \<open>
  \<^verbatim>\<open>startSession\<close>. The \<^verbatim>\<open>await\<close> of the bootstrap promise stands outside the
  \<^verbatim>\<open>try\<close>; everything after it is inside, and the \<^verbatim>\<open>catch\<close> block sends
  \<^verbatim>\<open>initializedError\<close> and returns.
\<close>

definition startSession ::
  "('c, 'p, 'n, 'b, 'v) env \<Rightarrow> ('c, 'p, 'b) worker \<Rightarrow> string \<Rightarrow> string \<Rightarrow>
     unit outcome \<times> ('c, 'p, 'b) worker" where
  "startSession env st code appId =
     (case await (pyodideReadyPromise st) of
        Hangs \<Rightarrow> (Hangs, st)
      | Throws e \<Rightarrow> (Throws e, st)
      | Returns u \<Rightarrow>
          (case controller st of
             None \<Rightarrow>
               (Returns (),
                send (InitializedError
                  (prettyError env (InvariantError ''Controller not loaded''))) st)
           | Some c \<Rightarrow>
               (case controller_mountFilesystem env c code (''app-'' @ appId @ ''.py'') of
                  Hangs \<Rightarrow> (Hangs, st)
                | Throws e \<Rightarrow> (Returns (), send (InitializedError (prettyError env e)) st)
                | Returns notebook \<Rightarrow>
                    (case controller_startSession env c notebook of
                       Hangs \<Rightarrow> (Hangs, st)
                     | Throws e \<Rightarrow>
                         (Returns (), send (InitializedError (prettyError env e)) st)
                     | Returns br \<Rightarrow>
                         (Returns (),
                          send Initialized
                            (st\<lparr>bridgeReady := resolve (bridgeReady st) br\<rparr>))))))"

text \<open>
  The rewriting of \<^verbatim>\<open>code\<close> inside \<^verbatim>\<open>loadPackages\<close>: each assignment puts one line in
  front of the text built so far, and the test for the second marker reads the text
  after the three lines were added.
\<close>

definition loadPackages_code :: "string \<Rightarrow> string" where
  "loadPackages_code code0 =
     (if string_includes code0 ''mo.sql'' then
        let code1 = ''import pandas\<newline>'' @ code0;
            code2 = ''import duckdb\<newline>'' @ code1;
            code3 = ''import sqlglot\<newline>'' @ code2
        in if string_includes code3 ''polars''
           then ''import pyarrow\<newline>'' @ code3
           else code3
      else code0)"

definition loadPackages ::
  "('c, 'p, 'n, 'b, 'v) env \<Rightarrow> ('c, 'p, 'b) worker \<Rightarrow> string \<Rightarrow> unit outcome" where
  "loadPackages env st code =
     (case await (pyodideReadyPromise st) of
        Hangs \<Rightarrow> Hangs
      | Throws e \<Rightarrow> Throws e
      | Returns u \<Rightarrow>
          (case pyodide st of
             None \<Rightarrow> Throws (TypeError ''Cannot read properties of undefined (reading loadPackagesFromImports)'')
           | Some p \<Rightarrow> pyodide_loadPackagesFromImports env p (loadPackages_code code)))"

text \<open>
  \<^verbatim>\<open>bridge\<close>: waits for the bootstrap promise and for the bridge handle, serializes the
  payload, calls the named function and post-processes the response.
\<close>

definition payloadString ::
  "('c, 'p, 'n, 'b, 'v) env \<Rightarrow> 'v payload \<Rightarrow> error + string option" where
  "payloadString env payload =
     (case payload of
        PNull \<Rightarrow> Inr None
      | PUndefined \<Rightarrow> Inr None
      | PString s \<Rightarrow> Inr (Some s)
      | PValue v \<Rightarrow>
          (case JSON_stringify env v of Inl e \<Rightarrow> Inl e | Inr s \<Rightarrow> Inr (Some s)))"

definition bridge ::
  "('c, 'p, 'n, 'b, 'v) env \<Rightarrow> ('c, 'p, 'b) worker \<Rightarrow> string \<Rightarrow> 'v payload \<Rightarrow> 'v outcome"
  where
  "bridge env st functionName payload =
     (case await (pyodideReadyPromise st) of
        Hangs \<Rightarrow> Hangs
      | Throws e \<Rightarrow> Throws e
      | Returns u \<Rightarrow>
          (case await (bridgeReady st) of
             Hangs \<Rightarrow> Hangs
           | Throws e \<Rightarrow> Throws e
           | Returns b \<Rightarrow>
               (case payloadString env payload of
                  Inl e \<Rightarrow> Throws e
                | Inr arg \<Rightarrow>
                    (case bridge_call env b functionName arg of
                       Hangs \<Rightarrow> Hangs
                     | Throws e \<Rightarrow> Throws e
                     | Returns (RValue v) \<Rightarrow> Returns v
                     | Returns (RString s) \<Rightarrow>
                         (case JSON_parse env s of
                            Inl e \<Rightarrow> Throws e
                          | Inr v \<Rightarrow> Returns v)))))"

section \<open>The grid layout editor (components/editor/renderers/grid-layout/grid-layout.tsx)\<close>

subsection \<open>Numbers\<close>

text \<open>
  A source number is an IEEE 754 double. A finite double is modelled by the rational it
  denotes, \<open>Num 0\<close> being \<open>+0\<close>; the negative zero, \<^verbatim>\<open>NaN\<close> and the two infinities are
  values of their own.
\<close>

datatype number = Num rat | NegZero | NaN | Infinity | NegInfinity

text \<open>
  Rounding a positive rational to the nearest double. \<open>expo a\<close> is the binary exponent of
  \<open>a\<close>, the integer \<open>e\<close> with \<open>2 powi e \<le> a < 2 powi (e + 1)\<close>, read off the bit length of
  the integer part of \<open>a\<close> or of its inverse. \<open>round_half_even\<close> rounds to the nearest
  integer, a tie going to the even one. \<open>round_double neg a\<close> rounds the magnitude \<open>a\<close> on
  the grid of the doubles of its exponent (53 significant bits; the subnormal grid of
  step \<open>2 powi (- 1074)\<close> below \<open>2 powi (- 1022)\<close>), overflows to an infinity from
  \<open>2 powi 1024\<close> on, underflows to a zero, and attaches the sign.
\<close>

definition expo :: "rat \<Rightarrow> int" where
  "expo a =
     (if 1 \<le> a then int (floorlog 2 (nat \<lfloor>a\<rfloor>)) - 1
      else - int (floorlog 2 (nat (\<lceil>1 / a\<rceil> - 1))))"

definition round_half_even :: "rat \<Rightarrow> int" where
  "round_half_even t =
     (let f = \<lfloor>t\<rfloor>; d = t - of_int f
      in if d < 1 / 2 then f
         else if 1 / 2 < d then f + 1
         else if even f then f else f + 1)"

definition signed_zero :: "bool \<Rightarrow> number" where
  "signed_zero neg = (if neg then NegZero else Num 0)"

definition signed_inf :: "bool \<Rightarrow> number" where
  "signed_inf neg = (if neg then NegInfinity else Infinity)"

definition round_double :: "bool \<Rightarrow> rat \<Rightarrow> number" where
  "round_double neg a =
     (let e = max (expo a) (- 1022);
          ulp = 2 powi (e - 52);
          k = round_half_even (a / ulp);
          m = of_int k * ulp
      in if 2 powi 1024 \<le> m then signed_inf neg
         else if k = 0 then signed_zero neg
         else Num (if neg then - m else m))"

text \<open>
  The operator \<^verbatim>\<open>/\<close> on doubles: \<^verbatim>\<open>NaN\<close> absorbs, the sign of the result is the product
  of the signs, a quotient of two infinities or of two zeros is \<^verbatim>\<open>NaN\<close>, and a quotient of
  finite non-zero values is the exact quotient rounded to the nearest double.
\<close>

fun is_neg :: "number \<Rightarrow> bool" where
  "is_neg (Num q) = (q < 0)"
| "is_neg NegZero = True"
| "is_neg NaN = False"
| "is_neg Infinity = False"
| "is_neg NegInfinity = True"

fun is_inf :: "number \<Rightarrow> bool" where
  "is_inf Infinity = True"
| "is_inf NegInfinity = True"
| "is_inf a = False"

fun magnitude :: "number \<Rightarrow> rat" where
  "magnitude (Num q) = \<bar>q\<bar>"
| "magnitude a = 0"

definition js_div :: "number \<Rightarrow> number \<Rightarrow> number" where
  "js_div a b =
     (if a = NaN \<or> b = NaN then NaN
      else let neg = (is_neg a \<noteq> is_neg b)
           in if is_inf a then (if is_inf b then NaN else signed_inf neg)
              else if is_inf b then signed_zero neg
              else if magnitude b = 0 then (if magnitude a = 0 then NaN else signed_inf neg)
              else if magnitude a = 0 then signed_zero neg
              else round_double neg (magnitude a / magnitude b))"

text \<open>\<^verbatim>\<open>Math.ceil\<close>; a negative value above \<open>-1\<close> gives the negative zero.\<close>

fun js_ceil :: "number \<Rightarrow> number" where
  "js_ceil (Num q) = (if \<lceil>q\<rceil> = 0 \<and> q < 0 then NegZero else Num (of_int \<lceil>q\<rceil>))"
| "js_ceil a = a"

text \<open>Truthiness of a number, and \<^verbatim>\<open>a || b\<close> on numbers.\<close>

fun truthy :: "number \<Rightarrow> bool" where
  "truthy (Num q) = (q \<noteq> 0)"
| "truthy NegZero = False"
| "truthy NaN = False"
| "truthy Infinity = True"
| "truthy NegInfinity = True"

definition js_or :: "number \<Rightarrow> number \<Rightarrow> number" where
  "js_or a b = (if truthy a then a else b)"

subsection \<open>The layout document\<close>

datatype GridLayoutCellSide = SideTop | SideBottom | SideLeft | SideRight

text \<open>An entry of \<^verbatim>\<open>layout.cells\<close>: the id \<^verbatim>\<open>i\<close> of the cell and its place in the grid.\<close>

record layout_item =
  i :: string
  x :: number
  y :: number
  w :: number
  h :: number

record GridLayout =
  columns :: number
  rowHeight :: number
  maxWidth :: "number option"
  bordered :: bool
  cells :: "layout_item list"
  scrollableCells :: "string set"
  cellSide :: "string \<rightharpoonup> GridLayoutCellSide"

text \<open>
  A notebook cell as the renderer receives it in its \<^verbatim>\<open>cells\<close> property; only the id
  matters to the layout, the other fields live in the record's extension.
\<close>

record cell_data =
  cell_id :: string

text \<open>The component state \<^verbatim>\<open>droppingItem\<close>, with its optional fields.\<close>

record dropping_item =
  drop_i :: string
  drop_w :: "number option"
  drop_h :: "number option"

subsection \<open>Derived values and handlers\<close>

definition inGridIds :: "GridLayout \<Rightarrow> string set" where
  "inGridIds layout = set (map i (cells layout))"

text \<open>The cells rendered in the grid, and the cells rendered in the side tray.\<close>

definition inGrid :: "GridLayout \<Rightarrow> 'a cell_data_scheme list \<Rightarrow> 'a cell_data_scheme list" where
  "inGrid layout notebook = filter (\<lambda>cell. cell_id cell \<in> inGridIds layout) notebook"

definition notInGrid :: "GridLayout \<Rightarrow> 'a cell_data_scheme list \<Rightarrow> 'a cell_data_scheme list"
  where
  "notInGrid layout notebook = filter (\<lambda>cell. cell_id cell \<notin> inGridIds layout) notebook"

definition handleMakeScrollable :: "GridLayout \<Rightarrow> string \<Rightarrow> bool \<Rightarrow> GridLayout" where
  "handleMakeScrollable layout cellId isScrollable =
     layout\<lparr>scrollableCells :=
       (if isScrollable then insert cellId (scrollableCells layout)
        else scrollableCells layout - {cellId})\<rparr>"

definition handleSetSide :: "GridLayout \<Rightarrow> string \<Rightarrow> GridLayoutCellSide \<Rightarrow> GridLayout" where
  "handleSetSide layout cellId side =
     layout\<lparr>cellSide :=
       (if Some side = cellSide layout cellId
        then (cellSide layout)(cellId := None)
        else (cellSide layout)(cellId \<mapsto> side))\<rparr>"

text \<open>
  The three handlers that replace \<^verbatim>\<open>layout.cells\<close>. \<^verbatim>\<open>onLayoutChange\<close> and \<^verbatim>\<open>onDrop\<close>
  receive their lists from the grid library; \<^verbatim>\<open>onDrop\<close> returns without a new document
  when the library hands over no dropped item.
\<close>

definition onLayoutChange :: "GridLayout \<Rightarrow> layout_item list \<Rightarrow> GridLayout" where
  "onLayoutChange layout cellLayouts = layout\<lparr>cells := cellLayouts\<rparr>"

definition onDrop ::
  "GridLayout \<Rightarrow> layout_item list \<Rightarrow> layout_item option \<Rightarrow> GridLayout option" where
  "onDrop layout cellLayouts dropped =
     (case dropped of
        None \<Rightarrow> None
      | Some d \<Rightarrow> Some (layout\<lparr>cells := cellLayouts @ [d]\<rparr>))"

definition onDelete :: "GridLayout \<Rightarrow> string \<Rightarrow> GridLayout" where
  "onDelete layout cellId = layout\<lparr>cells := filter (\<lambda>c. i c \<noteq> cellId) (cells layout)\<rparr>"

text \<open>
  \<^verbatim>\<open>onDragStart\<close> of a tray cell, with the \<^verbatim>\<open>offsetHeight\<close> of its element, and the
  \<^verbatim>\<open>droppingItem\<close> property handed to the grid library (id, width, height).
\<close>

definition onDragStart :: "GridLayout \<Rightarrow> 'a cell_data_scheme \<Rightarrow> number \<Rightarrow> dropping_item" where
  "onDragStart layout cell height =
     \<lparr>drop_i = cell_id cell,
      drop_w = Some (js_div (columns layout) (Num 4)),
      drop_h = Some (js_or (js_ceil (js_div height (rowHeight layout))) (Num 1))\<rparr>"

definition or_default :: "number option \<Rightarrow> number \<Rightarrow> number" where
  "or_default v d = (case v of None \<Rightarrow> d | Some n \<Rightarrow> js_or n d)"

definition droppingItem_prop :: "dropping_item option \<Rightarrow> (string \<times> number \<times> number) option" where
  "droppingItem_prop droppingItem =
     (case droppingItem of
        None \<Rightarrow> None
      | Some d \<Rightarrow> Some (drop_i d, or_default (drop_w d) (Num 2), or_default (drop_h d) (Num 2)))"

text \<open>The invariant of the data model: the entries of \<^verbatim>\<open>layout.cells\<close> have distinct ids.\<close>

definition unique_ids :: "GridLayout \<Rightarrow> bool" where
  "unique_ids layout = distinct (map i (cells layout))"

section \<open>Concrete instances\<close>

text \<open>
  A small value type and collaborators to run the worker on. \<open>demo_parse\<close> agrees with
  \<^verbatim>\<open>JSON.parse\<close> on the three literals and on text that starts no JSON value, and
  \<open>demo_stringify\<close> with \<^verbatim>\<open>JSON.stringify\<close> on null, the booleans and big integers
  (which it refuses); nothing else is evaluated below.
\<close>

datatype jsvalue = JNull | JBool bool | JString string | JBigInt int

definition demo_parse :: "string \<Rightarrow> error + jsvalue" where
  "demo_parse s =
     (if s = ''null'' then Inr JNull
      else if s = ''true'' then Inr (JBool True)
      else if s = ''false'' then Inr (JBool False)
      else Inl (SyntaxError ''Unexpected token''))"

definition demo_stringify :: "jsvalue \<Rightarrow> error + string" where
  "demo_stringify v =
     (case v of
        JNull \<Rightarrow> Inr ''null''
      | JBool b \<Rightarrow> Inr (if b then ''true'' else ''false'')
      | JString s \<Rightarrow> Inr ([CHR 0x22] @ s @ [CHR 0x22])
      | JBigInt n \<Rightarrow> Inl (TypeError ''Do not know how to serialize a BigInt''))"

text \<open>
  The bridge functions of the demo: \<^verbatim>\<open>raw\<close> answers with a value that is not a string;
  every other name answers with its argument as a string, and with the text \<^verbatim>\<open>pong\<close>
  when called without one.
\<close>

definition demo_env :: "(nat, nat, string, nat, jsvalue) env" where
  "demo_env =
     \<lparr>getPyodideVersion = (\<lambda>v. ''0.27.7''),
      newController = 7,
      controller_bootstrap = (\<lambda>c v pv. Returns 11),
      controller_mountFilesystem = (\<lambda>c src filename. Returns filename),
      controller_startSession = (\<lambda>c n. Returns 13),
      pyodide_loadPackagesFromImports = (\<lambda>p src. Returns ()),
      bridge_call =
        (\<lambda>b f arg. if f = ''raw'' then Returns (RValue (JBool True))
                   else (case arg of None \<Rightarrow> Returns (RString ''pong'')
                                   | Some a \<Rightarrow> Returns (RString a))),
      JSON_stringify = demo_stringify,
      JSON_parse = demo_parse,
      prettyError =
        (\<lambda>e. case e of TypeError m \<Rightarrow> m | InvariantError m \<Rightarrow> m
                       | SyntaxError m \<Rightarrow> m | Thrown m \<Rightarrow> m)\<rparr>"

text \<open>The same collaborators with a bootstrap that fails, and a controller that cannot
  mount a file without its interpreter.\<close>

definition failing_env :: "(nat, nat, string, nat, jsvalue) env" where
  "failing_env =
     demo_env\<lparr>controller_bootstrap := (\<lambda>c v pv. Throws (Thrown ''failed to fetch'')),
              controller_mountFilesystem := (\<lambda>c src filename. Throws (Thrown ''not loaded''))\<rparr>"

text \<open>A bootstrap that fails while the controller's later calls still succeed.\<close>

definition failing_bootstrap_env :: "(nat, nat, string, nat, jsvalue) env" where
  "failing_bootstrap_env =
     demo_env\<lparr>controller_bootstrap := (\<lambda>c v pv. Throws (Thrown ''failed to fetch''))\<rparr>"

definition demo_item :: "string \<Rightarrow> layout_item" where
  "demo_item cid = \<lparr>i = cid, x = Num 0, y = Num 0, w = Num 3, h = Num 2\<rparr>"

definition demo_layout :: "layout_item list \<Rightarrow> GridLayout" where
  "demo_layout items =
     \<lparr>columns = Num 12, rowHeight = Num 20, maxWidth = None, bordered = False,
      cells = items, scrollableCells = {}, cellSide = Map.empty\<rparr>"

definition demo_cell :: "string \<Rightarrow> cell_data" where
  "demo_cell cid = \<lparr>cell_id = cid\<rparr>"

section \<open>Properties of the worker\<close>

subsection \<open>Substring search\<close>

lemma string_includes_iff: "string_includes s t \<longleftrightarrow> (\<exists>ps ss. s = ps @ t @ ss)"
proof (induction s)
  case Nil
  then show ?case by auto
next
  case (Cons c s)
  show ?case
  proof
    assume "string_includes (c # s) t"
    then consider "prefix t (c # s)" | "string_includes s t" by auto
    then show "\<exists>ps ss. c # s = ps @ t @ ss"
    proof cases
      case 1
      then obtain ss where "c # s = t @ ss" by (auto simp: prefix_def)
      then have "c # s = [] @ t @ ss" by simp
      then show ?thesis by blast
    next
      case 2
      with Cons.IH obtain ps ss where "s = ps @ t @ ss" by blast
      then have "c # s = (c # ps) @ t @ ss" by simp
      then show ?thesis by blast
    qed
  next
    assume "\<exists>ps ss. c # s = ps @ t @ ss"
    then obtain ps ss where eq: "c # s = ps @ t @ ss" by blast
    show "string_includes (c # s) t"
    proof (cases ps)
      case Nil
      with eq have "prefix t (c # s)" by (simp add: prefix_def)
      then show ?thesis by simp
    next
      case (Cons p ps')
      with eq have "s = ps' @ t @ ss" by simp
      with Cons.IH have "string_includes s t" by blast
      then show ?thesis by simp
    qed
  qed
qed

lemma string_includes_append: "string_includes s t \<Longrightarrow> string_includes (p @ s) t"
  by (induction p) auto

text \<open>
  None of the three lines injected for the first marker contains the second marker, so
  the test made after the injection is the test on the original text.
\<close>

lemma injected_lines_no_polars:
  "string_includes
     (''import sqlglot\<newline>import duckdb\<newline>import pandas\<newline>'' @ s) ''polars''
   = string_includes s ''polars''"
  by simp

lemma loadPackages_code_sql:
  "string_includes code ''mo.sql'' \<Longrightarrow>
   loadPackages_code code =
     (if string_includes code ''polars''
      then ''import pyarrow\<newline>import sqlglot\<newline>import duckdb\<newline>import pandas\<newline>'' @ code
      else ''import sqlglot\<newline>import duckdb\<newline>import pandas\<newline>'' @ code)"
  using injected_lines_no_polars [of code] by (simp add: loadPackages_code_def)

lemma loadPackages_ready:
  "pyodideReadyPromise st = Fulfilled () \<Longrightarrow> pyodide st = Some p \<Longrightarrow>
   loadPackages env st code = pyodide_loadPackagesFromImports env p (loadPackages_code code)"
  by (simp add: loadPackages_def)

subsection \<open>The worker after the demo bootstrap\<close>

lemma demo_started:
  "worker_start demo_env nm =
     \<lparr>self_name = nm, controller = Some 7, pyodide = Some 11,
      pyodideReadyPromise = Fulfilled (), bridgeReady = Pending, sent = [Ready]\<rparr>"
  by (simp add: worker_start_def loadPyodideAndPackages_def demo_env_def)

lemma failing_started:
  "worker_start failing_env nm =
     \<lparr>self_name = nm, controller = Some 7, pyodide = None,
      pyodideReadyPromise = Fulfilled (), bridgeReady = Pending,
      sent = [Ready, InitializedError ''failed to fetch'']\<rparr>"
  by (simp add: worker_start_def loadPyodideAndPackages_def failing_env_def demo_env_def send_def)

lemma demo_session:
  "snd (startSession demo_env (worker_start demo_env nm) src app) =
     \<lparr>self_name = nm, controller = Some 7, pyodide = Some 11,
      pyodideReadyPromise = Fulfilled (), bridgeReady = Fulfilled 13,
      sent = [Ready, Initialized]\<rparr>"
  unfolding demo_started by (simp add: startSession_def send_def demo_env_def)

text \<open>
  The bootstrap promise is never rejected: \<^verbatim>\<open>loadPyodideAndPackages\<close> catches what the
  bootstrap throws.
\<close>

lemma worker_start_not_rejected: "pyodideReadyPromise (worker_start env nm) \<noteq> Rejected e"
  by (simp add: worker_start_def loadPyodideAndPackages_def Let_def send_def split: outcome.splits)

subsection \<open>Import injection in \<^verbatim>\<open>loadPackages\<close>\<close>

text \<open>
  Claim C10. For every code string that does not contain \<^verbatim>\<open>mo.sql\<close>, \<^verbatim>\<open>loadPackages\<close>
  hands the code to the import-driven installer unchanged: no import line is injected,
  whether or not the string contains \<^verbatim>\<open>polars\<close>. (The handler gets to the installer once
  the bootstrap promise is fulfilled and the interpreter handle is set.)
\<close>

theorem loadPackages_without_sql_marker:
  assumes "\<not> string_includes code ''mo.sql''"
    and "pyodideReadyPromise st = Fulfilled ()" and "pyodide st = Some p"
  shows "loadPackages_code code = code \<and>
         loadPackages env st code = pyodide_loadPackagesFromImports env p code"
  using assms by (simp add: loadPackages_def loadPackages_code_def)

theorem loadPackages_without_sql_marker_witness:
  "\<not> string_includes ''import polars'' ''mo.sql'' \<and>
   string_includes ''import polars'' ''polars'' \<and>
   pyodideReadyPromise (worker_start demo_env ''0.9.0'') = Fulfilled () \<and>
   pyodide (worker_start demo_env ''0.9.0'') = Some 11 \<and>
   loadPackages_code ''import polars'' = ''import polars'' \<and>
   loadPackages demo_env (worker_start demo_env ''0.9.0'') ''import polars''
     = pyodide_loadPackagesFromImports demo_env 11 ''import polars''"
proof -
  have a: "\<not> string_includes ''import polars'' ''mo.sql''" by simp
  have b: "pyodideReadyPromise (worker_start demo_env ''0.9.0'') = Fulfilled ()"
    by (simp add: demo_started)
  have c: "pyodide (worker_start demo_env ''0.9.0'') = Some 11"
    by (simp add: demo_started)
  have d: "string_includes ''import polars'' ''polars''" by simp
  show ?thesis
    using a b c d loadPackages_without_sql_marker [OF a b c, of demo_env] by simp
qed

text \<open>
  Claim C5. For every code string that contains both \<^verbatim>\<open>mo.sql\<close> and \<^verbatim>\<open>polars\<close>,
  \<^verbatim>\<open>loadPackages\<close> puts exactly four import lines in front of the code, the import of
  \<^verbatim>\<open>pyarrow\<close> first, ahead of the other three and of the original code, which follows
  unchanged.
\<close>

theorem loadPackages_both_markers:
  assumes "string_includes code ''mo.sql''" and "string_includes code ''polars''"
    and "pyodideReadyPromise st = Fulfilled ()" and "pyodide st = Some p"
  shows "loadPackages_code code =
           ''import pyarrow\<newline>'' @
           ''import sqlglot\<newline>'' @ ''import duckdb\<newline>'' @ ''import pandas\<newline>'' @ code \<and>
         loadPackages env st code =
           pyodide_loadPackagesFromImports env p
             (''import pyarrow\<newline>'' @
              ''import sqlglot\<newline>'' @ ''import duckdb\<newline>'' @ ''import pandas\<newline>'' @ code)"
  using assms loadPackages_code_sql [of code] by (simp add: loadPackages_def)

theorem loadPackages_both_markers_witness:
  "string_includes ''import polars; mo.sql(q)'' ''mo.sql'' \<and>
   string_includes ''import polars; mo.sql(q)'' ''polars'' \<and>
   loadPackages_code ''import polars; mo.sql(q)'' =
     ''import pyarrow\<newline>import sqlglot\<newline>import duckdb\<newline>import pandas\<newline>import polars; mo.sql(q)'' \<and>
   loadPackages demo_env (worker_start demo_env ''0.9.0'') ''import polars; mo.sql(q)'' =
     pyodide_loadPackagesFromImports demo_env 11
       ''import pyarrow\<newline>import sqlglot\<newline>import duckdb\<newline>import pandas\<newline>import polars; mo.sql(q)''"
proof -
  have a: "string_includes ''import polars; mo.sql(q)'' ''mo.sql''" by simp
  have b: "string_includes ''import polars; mo.sql(q)'' ''polars''" by simp
  have c: "pyodideReadyPromise (worker_start demo_env ''0.9.0'') = Fulfilled ()"
    by (simp add: demo_started)
  have d: "pyodide (worker_start demo_env ''0.9.0'') = Some 11"
    by (simp add: demo_started)
  show ?thesis
    using a b loadPackages_both_markers [OF a b c d, of demo_env] by simp
qed

text \<open>
  Claim C2, as the code has it. For every code string that contains \<^verbatim>\<open>mo.sql\<close> and not
  \<^verbatim>\<open>polars\<close>, \<^verbatim>\<open>loadPackages\<close> puts exactly three import lines in front of the code.
  Each line is put in front of the text built so far, so they are injected in the order
  pandas, duckdb, sqlglot and read from top to bottom in the reverse order: sqlglot,
  duckdb, pandas, followed by the unchanged original code.
\<close>

theorem loadPackages_sql_marker_only:
  assumes "string_includes code ''mo.sql''" and "\<not> string_includes code ''polars''"
    and "pyodideReadyPromise st = Fulfilled ()" and "pyodide st = Some p"
  shows "loadPackages_code code =
           ''import sqlglot\<newline>'' @ ''import duckdb\<newline>'' @ ''import pandas\<newline>'' @ code \<and>
         loadPackages env st code =
           pyodide_loadPackagesFromImports env p
             (''import sqlglot\<newline>'' @ ''import duckdb\<newline>'' @ ''import pandas\<newline>'' @ code)"
  using assms loadPackages_code_sql [of code] by (simp add: loadPackages_def)

theorem loadPackages_sql_marker_only_witness:
  "string_includes ''df = mo.sql(q)'' ''mo.sql'' \<and>
   \<not> string_includes ''df = mo.sql(q)'' ''polars'' \<and>
   loadPackages_code ''df = mo.sql(q)'' =
     ''import sqlglot\<newline>import duckdb\<newline>import pandas\<newline>df = mo.sql(q)'' \<and>
   loadPackages demo_env (worker_start demo_env ''0.9.0'') ''df = mo.sql(q)'' =
     pyodide_loadPackagesFromImports demo_env 11
       ''import sqlglot\<newline>import duckdb\<newline>import pandas\<newline>df = mo.sql(q)''"
proof -
  have a: "string_includes ''df = mo.sql(q)'' ''mo.sql''" by simp
  have b: "\<not> string_includes ''df = mo.sql(q)'' ''polars''" by simp
  have c: "pyodideReadyPromise (worker_start demo_env ''0.9.0'') = Fulfilled ()"
    by (simp add: demo_started)
  have d: "pyodide (worker_start demo_env ''0.9.0'') = Some 11"
    by (simp add: demo_started)
  show ?thesis
    using a b loadPackages_sql_marker_only [OF a b c d, of demo_env] by simp
qed

text \<open>
  The order the claim states (pandas, duckdb, sqlglot from top to bottom) is not the
  text the code builds: on the input \<^verbatim>\<open>df = mo.sql(q)\<close>, which has the first marker and
  not the second, the result differs from it.
\<close>

theorem loadPackages_order_counterexample:
  "string_includes ''df = mo.sql(q)'' ''mo.sql'' \<and>
   \<not> string_includes ''df = mo.sql(q)'' ''polars'' \<and>
   loadPackages_code ''df = mo.sql(q)'' \<noteq>
     ''import pandas\<newline>'' @ ''import duckdb\<newline>'' @ ''import sqlglot\<newline>'' @ ''df = mo.sql(q)'' \<and>
   loadPackages_code ''df = mo.sql(q)'' =
     ''import sqlglot\<newline>import duckdb\<newline>import pandas\<newline>df = mo.sql(q)''"
  by (simp add: loadPackages_code_def)

subsection \<open>Bootstrap failure\<close>

text \<open>
  Claim C1, as the code has it. If the interpreter bootstrap fails,
  \<^verbatim>\<open>loadPyodideAndPackages\<close> reports the failure once with an \<^verbatim>\<open>initializedError\<close>
  message and then returns, so the bootstrap promise is fulfilled, with the controller
  set and the interpreter handle unset. A later call that awaits the promise does not
  hang on it: \<^verbatim>\<open>startSession\<close> goes on to mount the file and start the session (sending
  \<^verbatim>\<open>initialized\<close>, or a further \<^verbatim>\<open>initializedError\<close> when one of the two fails), and
  \<^verbatim>\<open>loadPackages\<close> goes on to the installer call, which throws on the unset handle.
  Neither call starts the bootstrap again.
\<close>

theorem bootstrap_failure_is_swallowed:
  assumes "controller_bootstrap env (newController env) nm (getPyodideVersion env nm) = Throws e"
  shows
    "sent (worker_start env nm) = [Ready, InitializedError (prettyError env e)] \<and>
     pyodideReadyPromise (worker_start env nm) = Fulfilled () \<and>
     controller (worker_start env nm) = Some (newController env) \<and>
     pyodide (worker_start env nm) = None \<and>
     startSession env (worker_start env nm) code appId =
       (case controller_mountFilesystem env (newController env) code (''app-'' @ appId @ ''.py'') of
          Hangs \<Rightarrow> (Hangs, worker_start env nm)
        | Throws e1 \<Rightarrow>
            (Returns (), send (InitializedError (prettyError env e1)) (worker_start env nm))
        | Returns nb \<Rightarrow>
            (case controller_startSession env (newController env) nb of
               Hangs \<Rightarrow> (Hangs, worker_start env nm)
             | Throws e2 \<Rightarrow>
                 (Returns (), send (InitializedError (prettyError env e2)) (worker_start env nm))
             | Returns b \<Rightarrow>
                 (Returns (),
                  send Initialized ((worker_start env nm)\<lparr>bridgeReady := Fulfilled b\<rparr>)))) \<and>
     loadPackages env (worker_start env nm) code =
       Throws (TypeError ''Cannot read properties of undefined (reading loadPackagesFromImports)'')"
proof -
  have st: "worker_start env nm =
     \<lparr>self_name = nm, controller = Some (newController env), pyodide = None,
      pyodideReadyPromise = Fulfilled (), bridgeReady = Pending,
      sent = [Ready, InitializedError (prettyError env e)]\<rparr>"
    using assms by (simp add: worker_start_def loadPyodideAndPackages_def send_def)
  show ?thesis
    unfolding st by (simp add: startSession_def loadPackages_def split: outcome.splits)
qed

theorem bootstrap_failure_is_swallowed_witness:
  "controller_bootstrap failing_bootstrap_env (newController failing_bootstrap_env) ''0.9.0''
      (getPyodideVersion failing_bootstrap_env ''0.9.0'') = Throws (Thrown ''failed to fetch'') \<and>
   sent (worker_start failing_bootstrap_env ''0.9.0'')
     = [Ready, InitializedError ''failed to fetch''] \<and>
   pyodideReadyPromise (worker_start failing_bootstrap_env ''0.9.0'') = Fulfilled () \<and>
   fst (startSession failing_bootstrap_env (worker_start failing_bootstrap_env ''0.9.0'')
          ''x = 1'' ''main'') = Returns () \<and>
   sent (snd (startSession failing_bootstrap_env (worker_start failing_bootstrap_env ''0.9.0'')
          ''x = 1'' ''main'')) = [Ready, InitializedError ''failed to fetch'', Initialized] \<and>
   loadPackages failing_bootstrap_env (worker_start failing_bootstrap_env ''0.9.0'') ''x = 1''
     = Throws (TypeError ''Cannot read properties of undefined (reading loadPackagesFromImports)'')"
proof -
  have a: "controller_bootstrap failing_bootstrap_env (newController failing_bootstrap_env)
      ''0.9.0'' (getPyodideVersion failing_bootstrap_env ''0.9.0'')
        = Throws (Thrown ''failed to fetch'')"
    by (simp add: failing_bootstrap_env_def demo_env_def)
  have b: "prettyError failing_bootstrap_env (Thrown ''failed to fetch'') = ''failed to fetch''"
    by (simp add: failing_bootstrap_env_def demo_env_def)
  have c: "controller_mountFilesystem failing_bootstrap_env (newController failing_bootstrap_env)
      ''x = 1'' (''app-'' @ ''main'' @ ''.py'') = Returns ''app-main.py''"
    by (simp add: failing_bootstrap_env_def demo_env_def)
  have d: "controller_startSession failing_bootstrap_env (newController failing_bootstrap_env)
      ''app-main.py'' = Returns 13"
    by (simp add: failing_bootstrap_env_def demo_env_def)
  show ?thesis
    using a b c d
      bootstrap_failure_is_swallowed [OF a, of "''x = 1''" "''main''"]
    by (simp add: send_def)
qed

text \<open>
  The claim as stated says that such calls hang for ever. With a bootstrap that throws,
  the promise is fulfilled, \<^verbatim>\<open>startSession\<close> returns (after a second
  \<^verbatim>\<open>initializedError\<close>, the controller of this instance being unable to mount), and
  \<^verbatim>\<open>loadPackages\<close> throws.
\<close>

theorem bootstrap_failure_hang_counterexample:
  "controller_bootstrap failing_env (newController failing_env) ''0.9.0''
      (getPyodideVersion failing_env ''0.9.0'') = Throws (Thrown ''failed to fetch'') \<and>
   pyodideReadyPromise (worker_start failing_env ''0.9.0'') = Fulfilled () \<and>
   fst (startSession failing_env (worker_start failing_env ''0.9.0'') ''x = 1'' ''main'')
     = Returns () \<and>
   fst (startSession failing_env (worker_start failing_env ''0.9.0'') ''x = 1'' ''main'')
     \<noteq> Hangs \<and>
   sent (snd (startSession failing_env (worker_start failing_env ''0.9.0'') ''x = 1'' ''main''))
     = [Ready, InitializedError ''failed to fetch'', InitializedError ''not loaded''] \<and>
   loadPackages failing_env (worker_start failing_env ''0.9.0'') ''x = 1''
     = Throws (TypeError ''Cannot read properties of undefined (reading loadPackagesFromImports)'') \<and>
   loadPackages failing_env (worker_start failing_env ''0.9.0'') ''x = 1'' \<noteq> Hangs"
  unfolding failing_started
  by (simp add: startSession_def loadPackages_def send_def failing_env_def demo_env_def)

subsection \<open>\<^verbatim>\<open>startSession\<close>\<close>

text \<open>
  Claim C6. For every \<^verbatim>\<open>startSession(code, appId)\<close> request made once the bootstrap
  promise is fulfilled: if a stage after the bootstrap fails (the controller is missing,
  the mount throws, the session start throws), the handler sends an
  \<^verbatim>\<open>initializedError\<close> message with the error rendered by \<^verbatim>\<open>prettyError\<close> and returns
  normally; no outcome of the handler is a throw; and on success the bridge handle is
  resolved and an \<^verbatim>\<open>initialized\<close> message is sent.
\<close>

theorem startSession_reports_failures:
  assumes "pyodideReadyPromise st = Fulfilled ()"
  shows
    "(\<forall>e. fst (startSession env st code appId) \<noteq> Throws e) \<and>
     (controller st = None \<longrightarrow>
        startSession env st code appId =
          (Returns (),
           send (InitializedError (prettyError env (InvariantError ''Controller not loaded''))) st)) \<and>
     (controller st = Some c \<and>
      controller_mountFilesystem env c code (''app-'' @ appId @ ''.py'') = Throws e1 \<longrightarrow>
        startSession env st code appId =
          (Returns (), send (InitializedError (prettyError env e1)) st)) \<and>
     (controller st = Some c \<and>
      controller_mountFilesystem env c code (''app-'' @ appId @ ''.py'') = Returns nb \<and>
      controller_startSession env c nb = Throws e2 \<longrightarrow>
        startSession env st code appId =
          (Returns (), send (InitializedError (prettyError env e2)) st)) \<and>
     (controller st = Some c \<and>
      controller_mountFilesystem env c code (''app-'' @ appId @ ''.py'') = Returns nb \<and>
      controller_startSession env c nb = Returns b \<longrightarrow>
        startSession env st code appId =
          (Returns (), send Initialized (st\<lparr>bridgeReady := resolve (bridgeReady st) b\<rparr>)))"
  using assms
  by (auto simp: startSession_def split: outcome.splits option.splits)

theorem startSession_reports_failures_witness:
  "pyodideReadyPromise (worker_start failing_env ''0.9.0'') = Fulfilled () \<and>
   controller (worker_start failing_env ''0.9.0'') = Some 7 \<and>
   controller_mountFilesystem failing_env 7 ''x = 1'' (''app-'' @ ''main'' @ ''.py'')
     = Throws (Thrown ''not loaded'') \<and>
   fst (startSession failing_env (worker_start failing_env ''0.9.0'') ''x = 1'' ''main'')
     = Returns () \<and>
   sent (snd (startSession failing_env (worker_start failing_env ''0.9.0'') ''x = 1'' ''main''))
     = [Ready, InitializedError ''failed to fetch'', InitializedError ''not loaded''] \<and>
   controller_mountFilesystem demo_env 7 ''x = 1'' (''app-'' @ ''main'' @ ''.py'')
     = Returns ''app-main.py'' \<and>
   controller_startSession demo_env 7 ''app-main.py'' = Returns 13 \<and>
   fst (startSession demo_env (worker_start demo_env ''0.9.0'') ''x = 1'' ''main'') = Returns () \<and>
   sent (snd (startSession demo_env (worker_start demo_env ''0.9.0'') ''x = 1'' ''main''))
     = [Ready, Initialized] \<and>
   bridgeReady (snd (startSession demo_env (worker_start demo_env ''0.9.0'') ''x = 1'' ''main''))
     = Fulfilled 13"
proof -
  have f: "pyodideReadyPromise (worker_start failing_env ''0.9.0'') = Fulfilled ()"
    by (simp add: failing_started)
  have d: "pyodideReadyPromise (worker_start demo_env ''0.9.0'') = Fulfilled ()"
    by (simp add: demo_started)
  have fm: "controller_mountFilesystem failing_env 7 ''x = 1'' (''app-'' @ ''main'' @ ''.py'')
     = Throws (Thrown ''not loaded'')"
    by (simp add: failing_env_def demo_env_def)
  have dm: "controller_mountFilesystem demo_env 7 ''x = 1'' (''app-'' @ ''main'' @ ''.py'')
     = Returns ''app-main.py''"
    by (simp add: demo_env_def)
  have ds: "controller_startSession demo_env 7 ''app-main.py'' = Returns 13"
    by (simp add: demo_env_def)
  have pe: "prettyError failing_env (Thrown ''not loaded'') = ''not loaded''"
    by (simp add: failing_env_def demo_env_def)
  show ?thesis
    using f fm dm ds pe
      startSession_reports_failures [OF f, of failing_env "''x = 1''" "''main''" 7
        "Thrown ''not loaded''"]
      startSession_reports_failures [OF d, of demo_env "''x = 1''" "''main''" 7 _
        "''app-main.py''" _ 13]
    by (simp add: failing_started demo_started send_def)
qed

subsection \<open>\<^verbatim>\<open>bridge\<close>\<close>

text \<open>
  Claim C3, as the code has it. For every \<^verbatim>\<open>bridge(functionName, payload)\<close> call made
  once both promises are fulfilled: an absent payload (\<^verbatim>\<open>null\<close> or \<^verbatim>\<open>undefined\<close>) gives a
  call with no argument, a string payload is passed as it is, any other payload is
  passed as the text \<^verbatim>\<open>JSON.stringify\<close> gives (the call fails with its error when it
  throws). A response that is not a string is returned as it is; a string response is
  handed to \<^verbatim>\<open>JSON.parse\<close>, whose value is returned when the string parses and whose
  error fails the call when it does not.
\<close>

theorem bridge_payload_and_response:
  assumes "pyodideReadyPromise st = Fulfilled ()" and "bridgeReady st = Fulfilled b"
  shows
    "payloadString env PNull = Inr None \<and>
     payloadString env PUndefined = Inr None \<and>
     payloadString env (PString s) = Inr (Some s) \<and>
     (JSON_stringify env v = Inr t \<longrightarrow> payloadString env (PValue v) = Inr (Some t)) \<and>
     (JSON_stringify env v = Inl e \<longrightarrow> payloadString env (PValue v) = Inl e) \<and>
     (payloadString env payload = Inl e \<longrightarrow> bridge env st f payload = Throws e) \<and>
     (payloadString env payload = Inr arg \<and>
      bridge_call env b f arg = Returns (RValue u) \<longrightarrow>
        bridge env st f payload = Returns u) \<and>
     (payloadString env payload = Inr arg \<and>
      bridge_call env b f arg = Returns (RString r) \<and> JSON_parse env r = Inr u \<longrightarrow>
        bridge env st f payload = Returns u) \<and>
     (payloadString env payload = Inr arg \<and>
      bridge_call env b f arg = Returns (RString r) \<and> JSON_parse env r = Inl e \<longrightarrow>
        bridge env st f payload = Throws e) \<and>
     (payloadString env payload = Inr arg \<and> bridge_call env b f arg = Throws e \<longrightarrow>
        bridge env st f payload = Throws e)"
  using assms by (simp add: bridge_def payloadString_def)

theorem bridge_payload_and_response_witness:
  "pyodideReadyPromise (snd (startSession demo_env (worker_start demo_env ''0.9.0'') ''x = 1'' ''main''))
     = Fulfilled () \<and>
   bridgeReady (snd (startSession demo_env (worker_start demo_env ''0.9.0'') ''x = 1'' ''main''))
     = Fulfilled 13 \<and>
   bridge demo_env
     (snd (startSession demo_env (worker_start demo_env ''0.9.0'') ''x = 1'' ''main''))
     ''echo'' (PValue (JBool False)) = Returns (JBool False) \<and>
   bridge demo_env
     (snd (startSession demo_env (worker_start demo_env ''0.9.0'') ''x = 1'' ''main''))
     ''echo'' (PString ''null'') = Returns JNull \<and>
   bridge demo_env
     (snd (startSession demo_env (worker_start demo_env ''0.9.0'') ''x = 1'' ''main''))
     ''raw'' PUndefined = Returns (JBool True) \<and>
   bridge demo_env
     (snd (startSession demo_env (worker_start demo_env ''0.9.0'') ''x = 1'' ''main''))
     ''echo'' (PValue (JBigInt 5))
       = Throws (TypeError ''Do not know how to serialize a BigInt'') \<and>
   bridge demo_env
     (snd (startSession demo_env (worker_start demo_env ''0.9.0'') ''x = 1'' ''main''))
     ''echo'' PNull = Throws (SyntaxError ''Unexpected token'')"
proof -
  let ?st = "snd (startSession demo_env (worker_start demo_env ''0.9.0'') ''x = 1'' ''main'')"
  have a: "pyodideReadyPromise ?st = Fulfilled ()" by (simp add: demo_session)
  have b: "bridgeReady ?st = Fulfilled 13" by (simp add: demo_session)
  have str: "JSON_stringify demo_env (JBool False) = Inr ''false''"
    "JSON_stringify demo_env (JBigInt 5) = Inl (TypeError ''Do not know how to serialize a BigInt'')"
    by (simp_all add: demo_env_def demo_stringify_def)
  have call: "bridge_call demo_env 13 ''echo'' (Some ''false'') = Returns (RString ''false'')"
    "bridge_call demo_env 13 ''echo'' (Some ''null'') = Returns (RString ''null'')"
    "bridge_call demo_env 13 ''echo'' None = Returns (RString ''pong'')"
    "bridge_call demo_env 13 ''raw'' None = Returns (RValue (JBool True))"
    by (simp_all add: demo_env_def)
  have parse: "JSON_parse demo_env ''false'' = Inr (JBool False)"
    "JSON_parse demo_env ''null'' = Inr JNull"
    "JSON_parse demo_env ''pong'' = Inl (SyntaxError ''Unexpected token'')"
    by (simp_all add: demo_env_def demo_parse_def)
  note inst = bridge_payload_and_response [OF a b]
  show ?thesis
    using a b str call parse
      inst [where env = demo_env and v = "JBool False" and t = "''false''"
             and payload = "PValue (JBool False)" and arg = "Some ''false''"
             and f = "''echo''" and r = "''false''" and u = "JBool False"]
      inst [where env = demo_env and s = "''null''"
             and payload = "PString ''null''" and arg = "Some ''null''"
             and f = "''echo''" and r = "''null''" and u = "JNull"]
      inst [where env = demo_env and payload = "PUndefined" and arg = "None"
             and f = "''raw''" and u = "JBool True"]
      inst [where env = demo_env and v = "JBigInt 5" and payload = "PValue (JBigInt 5)"
             and e = "TypeError ''Do not know how to serialize a BigInt''" and f = "''echo''"]
      inst [where env = demo_env and payload = "PNull" and arg = "None"
             and f = "''echo''" and r = "''pong''" and e = "SyntaxError ''Unexpected token''"]
    by simp
qed

text \<open>
  The claim as stated says that a string response that does not parse is returned
  verbatim and never fails the call. A bridge function that answers \<^verbatim>\<open>pong\<close> makes the
  call throw the parser's error.
\<close>

theorem bridge_unparseable_response_counterexample:
  "pyodideReadyPromise (snd (startSession demo_env (worker_start demo_env ''0.9.0'') ''x = 1'' ''main''))
     = Fulfilled () \<and>
   bridgeReady (snd (startSession demo_env (worker_start demo_env ''0.9.0'') ''x = 1'' ''main''))
     = Fulfilled 13 \<and>
   bridge_call demo_env 13 ''ping'' None = Returns (RString ''pong'') \<and>
   JSON_parse demo_env ''pong'' = Inl (SyntaxError ''Unexpected token'') \<and>
   bridge demo_env
     (snd (startSession demo_env (worker_start demo_env ''0.9.0'') ''x = 1'' ''main''))
     ''ping'' PNull = Throws (SyntaxError ''Unexpected token'') \<and>
   bridge demo_env
     (snd (startSession demo_env (worker_start demo_env ''0.9.0'') ''x = 1'' ''main''))
     ''ping'' PNull \<noteq> Returns (JString ''pong'')"
  unfolding demo_session
  by (simp add: bridge_def payloadString_def demo_env_def demo_parse_def)

section \<open>Properties of the grid layout editor\<close>

subsection \<open>Docking side\<close>

text \<open>
  Claim C8. For every layout document and cell id, setting the docking side to the
  value the id has stored removes the id's entry from the side mapping, and setting
  any other value stores it; hence setting the same side twice, starting from an unset
  entry, leaves the entry cleared. The entries of the other ids and the other fields of
  the document are unchanged.
\<close>

theorem handleSetSide_toggle:
  "(cellSide layout cellId = Some side \<longrightarrow>
      cellSide (handleSetSide layout cellId side) cellId = None) \<and>
   (cellSide layout cellId \<noteq> Some side \<longrightarrow>
      cellSide (handleSetSide layout cellId side) cellId = Some side) \<and>
   (cellSide layout cellId = None \<longrightarrow>
      cellSide (handleSetSide (handleSetSide layout cellId side) cellId side) cellId = None) \<and>
   (other \<noteq> cellId \<longrightarrow>
      cellSide (handleSetSide layout cellId side) other = cellSide layout other) \<and>
   handleSetSide layout cellId side = layout\<lparr>cellSide := cellSide (handleSetSide layout cellId side)\<rparr>"
  by (auto simp: handleSetSide_def)

theorem handleSetSide_toggle_witness:
  "cellSide (demo_layout []) ''a'' = None \<and>
   cellSide (handleSetSide (demo_layout []) ''a'' SideLeft) ''a'' = Some SideLeft \<and>
   cellSide (handleSetSide (handleSetSide (demo_layout []) ''a'' SideLeft) ''a'' SideLeft) ''a''
     = None \<and>
   cellSide (handleSetSide (handleSetSide (demo_layout []) ''a'' SideLeft) ''a'' SideRight) ''a''
     = Some SideRight \<and>
   cellSide (handleSetSide (handleSetSide (demo_layout []) ''a'' SideLeft) ''b'' SideRight) ''a''
     = Some SideLeft"
proof -
  have a: "cellSide (demo_layout []) ''a'' = None" by (simp add: demo_layout_def)
  have ne: "''a'' \<noteq> ''b''" by simp
  show ?thesis
    using a ne
      handleSetSide_toggle [of "demo_layout []" "''a''" SideLeft]
      handleSetSide_toggle [of "handleSetSide (demo_layout []) ''a'' SideLeft" "''a''" SideLeft]
      handleSetSide_toggle [of "handleSetSide (demo_layout []) ''a'' SideLeft" "''a''" SideRight]
      handleSetSide_toggle [of "handleSetSide (demo_layout []) ''a'' SideLeft" "''b''" SideRight
        "''a''"]
    by simp
qed

subsection \<open>Deleting a cell\<close>

text \<open>
  Claim C9. For every layout document and every cell rendered in the grid (the cells
  that carry a delete button), deleting the cell gives a document whose cell list has
  no entry with that id, the cell then belongs to the derived list of unplaced cells
  shown in the tray, the entries of the other ids are kept, and all other fields of the
  document are unchanged.
\<close>

theorem onDelete_unplaced:
  assumes "cell \<in> set (inGrid layout notebook)"
  shows
    "cell_id cell \<notin> set (map i (cells (onDelete layout (cell_id cell)))) \<and>
     cell \<in> set (notInGrid (onDelete layout (cell_id cell)) notebook) \<and>
     cell \<notin> set (inGrid (onDelete layout (cell_id cell)) notebook) \<and>
     set (cells (onDelete layout (cell_id cell))) = {c \<in> set (cells layout). i c \<noteq> cell_id cell} \<and>
     onDelete layout (cell_id cell) = layout\<lparr>cells := cells (onDelete layout (cell_id cell))\<rparr>"
  using assms by (auto simp: onDelete_def inGrid_def notInGrid_def inGridIds_def)

theorem onDelete_unplaced_witness:
  "demo_cell ''a'' \<in> set (inGrid (demo_layout [demo_item ''a'', demo_item ''b''])
      [demo_cell ''a'', demo_cell ''b'', demo_cell ''c'']) \<and>
   cells (onDelete (demo_layout [demo_item ''a'', demo_item ''b'']) ''a'') = [demo_item ''b''] \<and>
   notInGrid (demo_layout [demo_item ''a'', demo_item ''b''])
      [demo_cell ''a'', demo_cell ''b'', demo_cell ''c''] = [demo_cell ''c''] \<and>
   notInGrid (onDelete (demo_layout [demo_item ''a'', demo_item ''b'']) ''a'')
      [demo_cell ''a'', demo_cell ''b'', demo_cell ''c''] = [demo_cell ''a'', demo_cell ''c''] \<and>
   demo_cell ''a'' \<in> set (notInGrid (onDelete (demo_layout [demo_item ''a'', demo_item ''b''])
      (cell_id (demo_cell ''a''))) [demo_cell ''a'', demo_cell ''b'', demo_cell ''c''])"
proof -
  have a: "demo_cell ''a'' \<in> set (inGrid (demo_layout [demo_item ''a'', demo_item ''b''])
      [demo_cell ''a'', demo_cell ''b'', demo_cell ''c''])"
    by (simp add: inGrid_def inGridIds_def demo_layout_def demo_item_def demo_cell_def)
  have b: "cells (onDelete (demo_layout [demo_item ''a'', demo_item ''b'']) ''a'') = [demo_item ''b'']"
    by (simp add: onDelete_def demo_layout_def demo_item_def)
  have c: "notInGrid (demo_layout [demo_item ''a'', demo_item ''b''])
      [demo_cell ''a'', demo_cell ''b'', demo_cell ''c''] = [demo_cell ''c'']"
    by (simp add: notInGrid_def inGridIds_def demo_layout_def demo_item_def demo_cell_def)
  have d: "notInGrid (onDelete (demo_layout [demo_item ''a'', demo_item ''b'']) ''a'')
      [demo_cell ''a'', demo_cell ''b'', demo_cell ''c''] = [demo_cell ''a'', demo_cell ''c'']"
    by (simp add: notInGrid_def inGridIds_def onDelete_def demo_layout_def demo_item_def
        demo_cell_def)
  show ?thesis
    using a b c d onDelete_unplaced [OF a] by simp
qed

subsection \<open>Unique ids\<close>

text \<open>
  Deleting a cell keeps the ids of the cell list unique. The layout-change callback
  stores the list of the grid library as it is. The drop handler appends the dropped
  item to the list of the grid library, so a list that already holds the item gives a
  cell list with its id twice.
\<close>

lemma onDelete_unique_ids: "unique_ids layout \<Longrightarrow> unique_ids (onDelete layout cellId)"
  by (simp add: unique_ids_def onDelete_def distinct_map_filter)

lemma onLayoutChange_unique_ids:
  "unique_ids (onLayoutChange layout cellLayouts) = distinct (map i cellLayouts)"
  by (simp add: unique_ids_def onLayoutChange_def)

lemma onDrop_repeats_dropped_item:
  "d \<in> set cellLayouts \<Longrightarrow>
   map_option unique_ids (onDrop layout cellLayouts (Some d)) = Some False"
  by (auto simp: unique_ids_def onDrop_def)

text \<open>
  Claim C4. Every operation that replaces the layout document is to keep the ids of the
  cell list unique, the drop handler in particular. The drop handler does not: on a
  drop the grid library hands over its list with the dropped item in it, and the
  handler appends the item once more. With one placed cell \<^verbatim>\<open>b\<close> and the tray cell \<^verbatim>\<open>a\<close>
  dropped, the library's list \<^verbatim>\<open>[b, a]\<close> has unique ids, the layout-change callback
  stores it with unique ids, and the drop handler stores \<^verbatim>\<open>[b, a, a]\<close>.
\<close>

theorem onDrop_duplicate_id:
  "unique_ids (demo_layout [demo_item ''b'']) \<and>
   distinct (map i [demo_item ''b'', demo_item ''a'']) \<and>
   unique_ids (onLayoutChange (demo_layout [demo_item ''b'']) [demo_item ''b'', demo_item ''a'']) \<and>
   map_option (map i \<circ> cells)
     (onDrop (demo_layout [demo_item ''b'']) [demo_item ''b'', demo_item ''a'']
        (Some (demo_item ''a''))) = Some [''b'', ''a'', ''a''] \<and>
   map_option unique_ids
     (onDrop (demo_layout [demo_item ''b'']) [demo_item ''b'', demo_item ''a'']
        (Some (demo_item ''a''))) = Some False"
  by (simp add: unique_ids_def onDrop_def onLayoutChange_def demo_layout_def demo_item_def)

subsection \<open>Double arithmetic\<close>

text \<open>Rounding to the nearest integer: exact on integers, within a half, monotone.\<close>

lemma round_half_even_of_int: "round_half_even (of_int z) = z"
  by (simp add: round_half_even_def)

lemma round_half_even_error: "\<bar>of_int (round_half_even t) - t\<bar> \<le> 1 / 2"
proof -
  have "of_int \<lfloor>t\<rfloor> \<le> t" "t < of_int \<lfloor>t\<rfloor> + 1" by linarith+
  then show ?thesis by (auto simp: round_half_even_def Let_def)
qed

lemma round_half_even_le: "t \<le> of_int z \<Longrightarrow> round_half_even t \<le> z"
proof -
  assume a: "t \<le> of_int z"
  show ?thesis
  proof (cases "t = of_int z")
    case True then show ?thesis by (simp add: round_half_even_of_int)
  next
    case False
    with a have "t < of_int z" by simp
    then have "\<lfloor>t\<rfloor> < z" by (simp add: floor_less_iff)
    then have "\<lfloor>t\<rfloor> + 1 \<le> z" by simp
    then show ?thesis by (auto simp: round_half_even_def Let_def)
  qed
qed

lemma round_half_even_ge: "of_int z \<le> t \<Longrightarrow> z \<le> round_half_even t"
proof -
  assume "of_int z \<le> t"
  then have "z \<le> \<lfloor>t\<rfloor>" by (simp add: le_floor_iff)
  then show ?thesis by (auto simp: round_half_even_def Let_def)
qed

text \<open>The binary exponent brackets its argument between two powers of two.\<close>

lemma expo_bounds:
  assumes "0 < a"
  shows "2 powi expo a \<le> a \<and> a < 2 powi (expo a + 1)"
proof (cases "1 \<le> a")
  case True
  define n where "n = nat \<lfloor>a\<rfloor>"
  have n: "0 < n" "of_nat n \<le> a" "a < of_nat n + 1"
    using True by (simp_all add: n_def) linarith+
  from floorlog_bounds [of n 2] n(1)
  have b: "2 ^ (floorlog 2 n - 1) \<le> n" "n < 2 ^ floorlog 2 n" by simp_all
  have pos: "0 < floorlog 2 n" using n(1) by (simp add: floorlog_def)
  have e: "expo a = int (floorlog 2 n - 1)" using True pos by (simp add: expo_def n_def)
  have "(2::rat) ^ (floorlog 2 n - 1) \<le> of_nat n"
    using b(1) by (metis of_nat_le_iff of_nat_numeral of_nat_power)
  with n(2) have lo: "(2::rat) ^ (floorlog 2 n - 1) \<le> a" by linarith
  have "n + 1 \<le> 2 ^ floorlog 2 n" using b(2) by simp
  then have "(of_nat (n + 1) :: rat) \<le> 2 ^ floorlog 2 n"
    by (metis of_nat_le_iff of_nat_numeral of_nat_power)
  with n(3) have hi: "a < (2::rat) ^ floorlog 2 n" by simp
  have p1: "(2::rat) powi int (floorlog 2 n - 1) = 2 ^ (floorlog 2 n - 1)"
    by (rule power_int_of_nat)
  have "int (floorlog 2 n - 1) + 1 = int (floorlog 2 n)" using pos by simp
  then have "(2::rat) powi (int (floorlog 2 n - 1) + 1) = 2 powi int (floorlog 2 n)"
    by (rule arg_cong)
  then have p2: "(2::rat) powi (int (floorlog 2 n - 1) + 1) = 2 ^ floorlog 2 n"
    by (simp only: power_int_of_nat)
  show ?thesis unfolding e p1 p2 using lo hi by simp
next
  case False
  with assms have a: "0 < a" "a < 1" by simp_all
  define c where "c = \<lceil>1 / a\<rceil>"
  define n where "n = nat (c - 1)"
  have inv: "1 < 1 / a" using a by simp
  have c: "1 / a \<le> of_int c" "of_int c - 1 < 1 / a" unfolding c_def by linarith+
  have "1 < c" using inv c(1) by linarith
  then have n: "0 < n" "int n = c - 1" by (simp_all add: n_def)
  from floorlog_bounds [of n 2] n(1)
  have b: "2 ^ (floorlog 2 n - 1) \<le> n" "n < 2 ^ floorlog 2 n" by simp_all
  have pos: "0 < floorlog 2 n" using n(1) by (simp add: floorlog_def)
  have e: "expo a = - int (floorlog 2 n)" using False by (simp add: expo_def n_def c_def)
  have "n + 1 \<le> 2 ^ floorlog 2 n" using b(2) by simp
  then have A: "(of_nat (n + 1) :: rat) \<le> 2 ^ floorlog 2 n"
    by (metis of_nat_le_iff of_nat_numeral of_nat_power)
  have B: "(of_nat (n + 1) :: rat) = of_int c" using n(2) by simp
  from A have "(of_int c :: rat) \<le> 2 ^ floorlog 2 n" unfolding B .
  with c(1) have "1 / a \<le> 2 ^ floorlog 2 n" by linarith
  then have lo: "1 / 2 ^ floorlog 2 n \<le> a"
    using a(1) by (simp add: field_simps)
  have C: "(2::rat) ^ (floorlog 2 n - 1) \<le> of_nat n"
    using b(1) by (metis of_nat_le_iff of_nat_numeral of_nat_power)
  have D: "(of_nat n :: rat) = of_int c - 1"
    using n(2) by (metis of_int_1 of_int_diff of_int_of_nat_eq)
  from C have "(2::rat) ^ (floorlog 2 n - 1) \<le> of_int c - 1" unfolding D .
  with c(2) have "(2::rat) ^ (floorlog 2 n - 1) < 1 / a" by linarith
  then have hi: "a < 1 / 2 ^ (floorlog 2 n - 1)"
    using a(1) by (simp add: field_simps)
  have p1: "(2::rat) powi (- int (floorlog 2 n)) = 1 / 2 ^ floorlog 2 n"
    by (simp add: power_int_minus field_simps)
  have "- int (floorlog 2 n) + 1 = - int (floorlog 2 n - 1)" using pos by simp
  then have "(2::rat) powi (- int (floorlog 2 n) + 1) = 2 powi (- int (floorlog 2 n - 1))"
    by (rule arg_cong)
  also have "\<dots> = 1 / 2 ^ (floorlog 2 n - 1)"
    by (simp only: power_int_minus power_int_of_nat inverse_eq_divide)
  finally have p2: "(2::rat) powi (- int (floorlog 2 n) + 1) = 1 / 2 ^ (floorlog 2 n - 1)" .
  show ?thesis unfolding e p1 p2 using lo hi by simp
qed

lemma two_powi_less_imp: "(2::rat) powi m < 2 powi n \<Longrightarrow> m < n"
  using power_int_increasing [of n m "2::rat"] by (cases "m < n") auto

lemma two_powi_le_imp: "(2::rat) powi m \<le> 2 powi n \<Longrightarrow> m \<le> n"
  using power_int_strict_increasing [of n m "2::rat"] by (cases "m \<le> n") auto

lemma expo_less: "0 < a \<Longrightarrow> a < 2 powi n \<Longrightarrow> expo a < n"
  using expo_bounds [of a] two_powi_less_imp [of "expo a" n] by simp

lemma expo_ge: "0 < a \<Longrightarrow> 2 powi n \<le> a \<Longrightarrow> n \<le> expo a"
  using expo_bounds [of a] two_powi_less_imp [of n "expo a + 1"] by simp

text \<open>
  A value on the grid of its exponent is its own rounding, and a positive magnitude
  rounds to a value that is not negative, or overflows.
\<close>

lemma round_double_exact:
  assumes "0 < a" and "a < 2 powi 1024"
    and "a / 2 powi (max (expo a) (- 1022) - 52) = of_int z"
  shows "round_double neg a = Num (if neg then - a else a)"
proof -
  define ulp :: rat where "ulp = 2 powi (max (expo a) (- 1022) - 52)"
  have ulp: "0 < ulp" by (simp add: ulp_def)
  have k: "round_half_even (a / ulp) = z"
    using assms(3) by (simp add: ulp_def round_half_even_of_int)
  have m: "of_int z * ulp = a" using assms(3) ulp by (simp add: ulp_def field_simps)
  have "z \<noteq> 0" using m assms(1) by auto
  then show ?thesis
    using assms(2) k m unfolding round_double_def Let_def ulp_def [symmetric]
    by (simp del: power_int_numeral)
qed

lemma round_double_nonneg:
  assumes "0 < a"
  shows "round_double False a = Infinity \<or> (\<exists>m\<ge>0. round_double False a = Num m)"
proof -
  define ulp :: rat where "ulp = 2 powi (max (expo a) (- 1022) - 52)"
  have ulp: "0 < ulp" by (simp add: ulp_def)
  have "of_int 0 \<le> a / ulp" using assms ulp by simp
  then have "0 \<le> round_half_even (a / ulp)" by (rule round_half_even_ge)
  then have "0 \<le> of_int (round_half_even (a / ulp)) * ulp" using ulp by simp
  then show ?thesis
    unfolding round_double_def Let_def ulp_def [symmetric]
    by (auto simp: signed_inf_def signed_zero_def)
qed

lemma js_div_nonneg:
  assumes "0 \<le> p" and "0 < r"
  shows "js_div (Num p) (Num r) = Infinity \<or> (\<exists>q\<ge>0. js_div (Num p) (Num r) = Num q)"
proof (cases "p = 0")
  case True
  with assms show ?thesis by (simp add: js_div_def signed_zero_def)
next
  case False
  with assms have "0 < p / r" by simp
  moreover have "js_div (Num p) (Num r) = round_double False (p / r)"
    using assms False by (simp add: js_div_def)
  ultimately show ?thesis using round_double_nonneg [of "p / r"] by simp
qed

text \<open>A quarter of a positive integer below \<open>2 ^ 53\<close> is a double.\<close>

lemma quarter_exact:
  assumes "0 < n" and "n < 2 ^ 53"
  shows "js_div (Num (of_int n)) (Num 4) = Num (of_int n / 4)"
proof -
  define a :: rat where "a = of_int n / 4"
  have a: "0 < a" using assms(1) by (simp add: a_def)
  have "(of_int n :: rat) < of_int (2 ^ 53)" using assms(2) by (simp only: of_int_less_iff)
  then have "a < 2 ^ 51" by (simp add: a_def)
  then have hi: "a < 2 powi 51" by simp
  have "(1::rat) \<le> of_int n" using assms(1) by (simp add: int_one_le_iff_zero_less)
  then have lo: "2 powi (- 2) \<le> a" by (simp add: a_def power_int_minus)
  have e: "expo a \<le> 50" "- 2 \<le> expo a"
    using expo_less [OF a hi] expo_ge [OF a lo] by simp_all
  then have mx: "max (expo a) (- 1022) = expo a" by simp
  have big: "a < 2 powi 1024"
    using hi power_int_strict_increasing [of 51 1024 "2::rat"] by simp
  have "a / 2 powi (expo a - 52) = a * 2 powi (52 - expo a)"
    by (simp add: power_int_diff field_simps)
  also have "\<dots> = of_int n * (2 powi (52 - expo a) / 2 powi 2)" by (simp add: a_def)
  also have "2 powi (52 - expo a) / 2 powi 2 = (2::rat) powi (50 - expo a)"
    by (simp add: power_int_diff)
  also have "(2::rat) powi (50 - expo a) = 2 ^ nat (50 - expo a)"
    using e by (simp add: power_int_nonneg_exp)
  also have "of_int n * (2::rat) ^ nat (50 - expo a) = of_int (n * 2 ^ nat (50 - expo a))"
    by simp
  finally have "a / 2 powi (max (expo a) (- 1022) - 52) = of_int (n * 2 ^ nat (50 - expo a))"
    unfolding mx .
  from round_double_exact [OF a big this, of False]
  have "round_double False a = Num a" by simp
  moreover have "js_div (Num (of_int n)) (Num 4) = round_double False a"
    using assms(1) by (simp add: js_div_def a_def)
  ultimately show ?thesis by (simp add: a_def)
qed

text \<open>
  For positive integers below \<open>2 ^ 53\<close> the rounded quotient has the ceiling of the
  exact quotient: the rounding error is below the distance \<open>1 / rn\<close> that separates a
  quotient of denominator \<open>rn\<close> from the integer below it, and the integer above it is
  on the grid.
\<close>

lemma div_ceil_integers:
  assumes pn: "0 < pn" "pn < 2 ^ 53" and rn: "0 < rn" "rn < 2 ^ 53"
  shows "\<exists>q. js_div (Num (of_nat pn)) (Num (of_nat rn)) = Num q \<and> 0 < q \<and>
           \<lceil>q\<rceil> = \<lceil>(of_nat pn :: rat) / of_nat rn\<rceil>"
proof -
  define a :: rat where "a = of_nat pn / of_nat rn"
  define Q where "Q = \<lceil>a\<rceil>"
  define ulp :: rat where "ulp = 2 powi (expo a - 52)"
  define k where "k = round_half_even (a / ulp)"
  define m :: rat where "m = of_int k * ulp"
  have P: "(0::rat) < of_nat pn" "(0::rat) < of_nat rn" using pn rn by simp_all
  have a: "0 < a" using P by (simp add: a_def)
  have pn53: "(of_nat pn :: rat) < 2 ^ 53"
    using pn(2) by (metis of_nat_less_iff of_nat_numeral of_nat_power)
  have rn53: "(of_nat rn :: rat) < 2 ^ 53"
    using rn(2) by (metis of_nat_less_iff of_nat_numeral of_nat_power)
  have rn1: "(1::rat) \<le> of_nat rn" using rn(1) by simp
  have "a \<le> of_nat pn"
    using P rn1 by (simp add: a_def field_simps mult_le_cancel_left1)
  with pn53 have hi: "a < 2 powi 53" by simp
  have pn1: "(1::rat) \<le> of_nat pn" using pn(1) by simp
  have "1 / of_nat rn \<le> a" using P pn1 by (simp add: a_def field_simps)
  moreover have "(1::rat) / 2 ^ 53 < 1 / of_nat rn" using P rn53 by (simp add: field_simps)
  ultimately have lo: "2 powi (- 53) \<le> a" by (simp add: power_int_minus field_simps)
  have e: "expo a \<le> 52" "- 53 \<le> expo a"
    using expo_less [OF a hi] expo_ge [OF a lo] by simp_all
  then have mx: "max (expo a) (- 1022) = expo a" by simp
  have ulp: "0 < ulp" by (simp add: ulp_def)
  have "ulp = 2 powi expo a / 2 ^ 52" by (simp add: ulp_def power_int_diff)
  also have "\<dots> \<le> a / 2 ^ 52" using expo_bounds [OF a] by (simp add: divide_right_mono)
  finally have ulp_le: "ulp \<le> a / 2 ^ 52" .
  have "a / 2 ^ 53 < 1 / of_nat rn"
    using P pn53 by (simp add: a_def field_simps)
  with ulp_le have half: "ulp / 2 < 1 / of_nat rn" by simp
  have err: "\<bar>of_int k - a / ulp\<bar> \<le> 1 / 2"
    unfolding k_def by (rule round_half_even_error)
  have "\<bar>m - a\<bar> = \<bar>of_int k - a / ulp\<bar> * ulp"
    using ulp by (simp add: m_def abs_mult [symmetric] field_simps)
  also have "\<dots> \<le> 1 / 2 * ulp" using err ulp by (simp add: mult_right_mono)
  finally have close: "\<bar>m - a\<bar> \<le> ulp / 2" by simp
  have Q: "of_int Q - 1 < a" "a \<le> of_int Q" unfolding Q_def by linarith+
  have "(of_int Q - 1) * of_nat rn < (of_nat pn :: rat)"
    using Q(1) P by (simp add: a_def field_simps)
  then have "(of_int ((Q - 1) * int rn) :: rat) < of_int (int pn)" by simp
  then have "(Q - 1) * int rn < int pn" by (simp only: of_int_less_iff)
  then have "(Q - 1) * int rn + 1 \<le> int pn" by simp
  then have "(of_int ((Q - 1) * int rn + 1) :: rat) \<le> of_int (int pn)"
    by (simp only: of_int_le_iff)
  then have "(of_int Q - 1) * of_nat rn + 1 \<le> (of_nat pn :: rat)" by simp
  then have "((of_int Q - 1) * of_nat rn + 1) / of_nat rn \<le> (of_nat pn :: rat) / of_nat rn"
    using P(2) by (simp only: divide_right_mono less_imp_le)
  moreover have "((of_int Q - 1) * of_nat rn + 1) / of_nat rn
      = of_int Q - 1 + 1 / (of_nat rn :: rat)"
    using P(2) by (simp add: add_divide_distrib)
  ultimately have gap: "of_int Q - 1 + 1 / of_nat rn \<le> a"
    by (simp only: a_def)
  have lower: "of_int Q - 1 < m" using close half gap by linarith
  have inv: "1 / ulp = 2 powi (52 - expo a)"
    by (simp add: ulp_def power_int_diff field_simps)
  also have "\<dots> = 2 ^ nat (52 - expo a)" using e by (simp add: power_int_nonneg_exp)
  finally have inv: "1 / ulp = of_int (2 ^ nat (52 - expo a))" by simp
  have "a / ulp \<le> of_int Q * (1 / ulp)" using Q(2) ulp by (simp add: field_simps)
  also have "\<dots> = of_int (Q * 2 ^ nat (52 - expo a))" unfolding inv by simp
  finally have "k \<le> Q * 2 ^ nat (52 - expo a)" unfolding k_def by (rule round_half_even_le)
  then have "(of_int k :: rat) \<le> of_int (Q * 2 ^ nat (52 - expo a))" by (simp only: of_int_le_iff)
  also have "\<dots> = of_int Q * (1 / ulp)" unfolding inv by simp
  finally have upper: "m \<le> of_int Q" using ulp by (simp add: m_def field_simps)
  have ceil: "\<lceil>m\<rceil> = Q" using lower upper by (simp add: ceiling_unique)
  have "1 \<le> Q" using a Q(2) by linarith
  then have mpos: "0 < m" using lower by linarith
  then have k0: "k \<noteq> 0" by (auto simp: m_def)
  have "of_int Q \<le> (of_nat pn :: rat)"
  proof -
    have "a \<le> of_int (int pn)" using \<open>a \<le> of_nat pn\<close> by simp
    then have "\<lceil>a\<rceil> \<le> int pn" by (simp only: ceiling_le_iff)
    then show ?thesis unfolding Q_def by (metis of_int_le_iff of_int_of_nat_eq)
  qed
  with upper pn53 have "m < 2 ^ 53" by linarith
  also have "(2::rat) ^ 53 < 2 ^ 1024" by (rule power_strict_increasing) simp_all
  finally have small: "\<not> 2 powi 1024 \<le> m" by simp
  have "round_double False a = Num m"
    using small k0 unfolding round_double_def Let_def mx ulp_def [symmetric] k_def [symmetric]
      m_def [symmetric]
    by (simp del: power_int_numeral)
  moreover have "js_div (Num (of_nat pn)) (Num (of_nat rn)) = round_double False a"
    using pn(1) rn(1) by (simp add: js_div_def a_def)
  ultimately show ?thesis using mpos ceil by (simp add: Q_def a_def)
qed

subsection \<open>Dropping a tray cell\<close>

lemma ceil_or_one:
  assumes "0 \<le> q"
  shows "js_or (js_ceil (Num q)) (Num 1) = Num (of_int (max 1 \<lceil>q\<rceil>))"
proof -
  have nonneg: "0 \<le> \<lceil>q\<rceil>" using assms by (simp add: le_ceiling_iff)
  have ceil: "js_ceil (Num q) = Num (of_int \<lceil>q\<rceil>)" using assms by simp
  show ?thesis
  proof (cases "\<lceil>q\<rceil> = 0")
    case True
    then show ?thesis unfolding ceil by (simp add: js_or_def)
  next
    case False
    with nonneg have "1 \<le> \<lceil>q\<rceil>" by linarith
    then have "max 1 \<lceil>q\<rceil> = \<lceil>q\<rceil>" by simp
    moreover have "rat_of_int \<lceil>q\<rceil> \<noteq> 0" using False by simp
    ultimately show ?thesis unfolding ceil by (simp add: js_or_def)
  qed
qed

lemma truthy_drop_h:
  "or_default (Some Infinity) (Num 2) = Infinity"
  "1 \<le> z \<Longrightarrow> or_default (Some (Num (of_int z))) (Num 2) = Num (of_int z)"
  by (simp_all add: or_default_def js_or_def)

text \<open>
  Claim C7. When a tray cell whose element has a pixel height \<open>p \<ge> 0\<close> is dragged in a
  document with a positive row height, the width of the dropping item is the column
  count divided by 4 and its height is the pixel height divided by the row height,
  rounded up, with a minimum of 1, both divisions being the divisions of doubles: the
  height is \<open>max 1 \<lceil>q\<rceil>\<close> for the double \<open>q\<close> nearest to the quotient (or infinite when the
  quotient overflows). For a column count that is a positive integer below \<open>2 ^ 53\<close> the
  width is exactly a quarter of it and is the width handed to the grid library, and
  for a pixel height and a row height that are integers below \<open>2 ^ 53\<close> the height is
  \<open>max 1 \<lceil>p / r\<rceil>\<close> of the exact quotient. When the drop completes, the dropped item
  is appended to the placed-cell list of the new document.
\<close>

theorem drop_from_tray:
  assumes "rowHeight layout = Num r" and "0 < r" and "height = Num p" and "0 \<le> p"
  shows
    "drop_i (onDragStart layout cell height) = cell_id cell \<and>
     drop_w (onDragStart layout cell height) = Some (js_div (columns layout) (Num 4)) \<and>
     (columns layout = Num (of_int n) \<and> 0 < n \<and> n < 2 ^ 53 \<longrightarrow>
        drop_w (onDragStart layout cell height) = Some (Num (of_int n / 4)) \<and>
        droppingItem_prop (Some (onDragStart layout cell height)) =
          Some (cell_id cell, Num (of_int n / 4), the (drop_h (onDragStart layout cell height)))) \<and>
     (js_div height (rowHeight layout) = Infinity \<and>
        drop_h (onDragStart layout cell height) = Some Infinity \<or>
      (\<exists>q\<ge>0. js_div height (rowHeight layout) = Num q \<and>
        drop_h (onDragStart layout cell height) = Some (Num (of_int (max 1 \<lceil>q\<rceil>))))) \<and>
     (p = of_nat pn \<and> r = of_nat rn \<and> pn < 2 ^ 53 \<and> rn < 2 ^ 53 \<longrightarrow>
        drop_h (onDragStart layout cell height) = Some (Num (of_int (max 1 \<lceil>p / r\<rceil>)))) \<and>
     onDrop layout cellLayouts (Some d) = Some (layout\<lparr>cells := cellLayouts @ [d]\<rparr>)"
proof -
  let ?item = "onDragStart layout cell height"
  have hdef: "drop_h ?item = Some (js_or (js_ceil (js_div (Num p) (Num r))) (Num 1))"
    using assms by (simp add: onDragStart_def)
  have wdef: "drop_w ?item = Some (js_div (columns layout) (Num 4))"
    by (simp add: onDragStart_def)
  have general: "js_div (Num p) (Num r) = Infinity \<and> drop_h ?item = Some Infinity \<or>
      (\<exists>q\<ge>0. js_div (Num p) (Num r) = Num q \<and>
        drop_h ?item = Some (Num (of_int (max 1 \<lceil>q\<rceil>))))"
    using js_div_nonneg [OF assms(4) assms(2)]
  proof
    assume "js_div (Num p) (Num r) = Infinity"
    then show ?thesis unfolding hdef by (simp add: js_or_def)
  next
    assume "\<exists>q\<ge>0. js_div (Num p) (Num r) = Num q"
    then obtain q where q: "0 \<le> q" "js_div (Num p) (Num r) = Num q" by blast
    then show ?thesis unfolding hdef using ceil_or_one [OF q(1)] by auto
  qed
  then have htruthy: "or_default (drop_h ?item) (Num 2) = the (drop_h ?item)"
    using truthy_drop_h by auto
  have quarter: "drop_w ?item = Some (Num (of_int n / 4)) \<and>
        droppingItem_prop (Some ?item) =
          Some (cell_id cell, Num (of_int n / 4), the (drop_h ?item))"
    if c: "columns layout = Num (of_int n)" "0 < n" "n < 2 ^ 53"
  proof -
    have w: "drop_w ?item = Some (Num (of_int n / 4))"
      unfolding wdef c(1) using quarter_exact [OF c(2) c(3)] by simp
    have "or_default (Some (Num (of_int n / 4))) (Num 2) = Num (of_int n / 4)"
      using c(2) by (simp add: or_default_def js_or_def)
    with w htruthy show ?thesis
      by (simp add: droppingItem_prop_def) (simp add: onDragStart_def)
  qed
  have ints: "drop_h ?item = Some (Num (of_int (max 1 \<lceil>p / r\<rceil>)))"
    if i: "p = of_nat pn" "r = of_nat rn" "pn < 2 ^ 53" "rn < 2 ^ 53"
  proof (cases "pn = 0")
    case True
    then have "js_div (Num p) (Num r) = Num 0"
      using assms(2) i(1) by (simp add: js_div_def signed_zero_def)
    then show ?thesis unfolding hdef using True i(1) by (simp add: js_or_def)
  next
    case False
    then have pn: "0 < pn" by simp
    have rn: "0 < rn" using assms(2) i(2) by simp
    from div_ceil_integers [OF pn i(3) rn i(4)]
    obtain q where q: "js_div (Num (of_nat pn)) (Num (of_nat rn)) = Num q" "0 < q"
      "\<lceil>q\<rceil> = \<lceil>(of_nat pn :: rat) / of_nat rn\<rceil>" by blast
    have "0 \<le> q" using q(2) by simp
    from ceil_or_one [OF this] show ?thesis unfolding hdef i(1) i(2) q(1) q(3) by simp
  qed
  show ?thesis
    using general quarter ints wdef assms(1,3)
    by (simp add: onDrop_def) (simp add: onDragStart_def)
qed

theorem drop_from_tray_witness:
  "rowHeight (demo_layout []) = Num 20 \<and> (0::rat) < 20 \<and> (0::rat) \<le> 45 \<and>
   columns (demo_layout []) = Num (of_int 12) \<and>
   drop_i (onDragStart (demo_layout []) (demo_cell ''a'') (Num 45)) = ''a'' \<and>
   drop_w (onDragStart (demo_layout []) (demo_cell ''a'') (Num 45)) = Some (Num 3) \<and>
   drop_h (onDragStart (demo_layout []) (demo_cell ''a'') (Num 45)) = Some (Num 3) \<and>
   droppingItem_prop (Some (onDragStart (demo_layout []) (demo_cell ''a'') (Num 45)))
     = Some (''a'', Num 3, Num 3) \<and>
   drop_h (onDragStart (demo_layout []) (demo_cell ''a'') (Num 0)) = Some (Num 1) \<and>
   js_div (Num 6) (Num (5404319552844595 / 2 ^ 52)) = Num 5 \<and>
   drop_h (onDragStart ((demo_layout [])\<lparr>rowHeight := Num (5404319552844595 / 2 ^ 52)\<rparr>)
     (demo_cell ''a'') (Num 6)) = Some (Num 5) \<and>
   map_option cells
     (onDrop (demo_layout [demo_item ''b'']) [demo_item ''b''] (Some (demo_item ''a'')))
     = Some [demo_item ''b'', demo_item ''a'']"
proof -
  let ?L = "demo_layout []"
  let ?L' = "(demo_layout [])\<lparr>rowHeight := Num (5404319552844595 / 2 ^ 52)\<rparr>"
  have rh: "rowHeight ?L = Num 20" and col: "columns ?L = Num (of_int 12)"
    by (simp_all add: demo_layout_def)
  have rh': "rowHeight ?L' = Num (5404319552844595 / 2 ^ 52)" by simp
  have id: "cell_id (demo_cell ''a'') = ''a''" by (simp add: demo_cell_def)
  have c1: "\<lceil>(45::rat) / 20\<rceil> = 3" by (simp add: ceiling_unique)
  have ev: "js_div (Num 6) (Num (5404319552844595 / 2 ^ 52)) = Num 5" by code_simp
  have ev12: "js_div (Num 12) (Num 4) = Num 3" by code_simp
  have a: "drop_i (onDragStart ?L (demo_cell ''a'') (Num 45)) = ''a'' \<and>
      drop_w (onDragStart ?L (demo_cell ''a'') (Num 45)) = Some (Num 3) \<and>
      drop_h (onDragStart ?L (demo_cell ''a'') (Num 45)) = Some (Num 3) \<and>
      droppingItem_prop (Some (onDragStart ?L (demo_cell ''a'') (Num 45)))
        = Some (''a'', Num 3, Num 3)"
    using col id c1 ev12
      drop_from_tray [OF rh _ refl, of 45 "demo_cell ''a''" 12 45 20]
    by simp
  have b: "drop_h (onDragStart ?L (demo_cell ''a'') (Num 0)) = Some (Num 1)"
    using drop_from_tray [OF rh _ refl, of 0 "demo_cell ''a''" 12 0 20] by simp
  have c: "drop_h (onDragStart ?L' (demo_cell ''a'') (Num 6)) = Some (Num 5)"
    using ev drop_from_tray [OF rh' _ refl, of 6 "demo_cell ''a''"] by auto
  have d: "map_option cells
     (onDrop (demo_layout [demo_item ''b'']) [demo_item ''b''] (Some (demo_item ''a'')))
     = Some [demo_item ''b'', demo_item ''a'']"
    by (simp add: onDrop_def)
  show ?thesis using rh col a b c d ev by simp
qed

end
